theory Spec2Isabelle
  imports Main "HOL-Library.Sublist"
begin

section \<open>Python strings\<close>

text \<open>
  A Python \<open>str\<close> is a sequence of Unicode code points, modelled as a list of natural
  numbers. The literals of the program are ASCII and are written \<open>str ''...''\<close>; the emoji of
  the fixed replies are given by their code points. The character classes are those of
  CPython 3.11, whose tables are those of Unicode 14.0.0.
\<close>

type_synonym pystr = "nat list"

definition str :: "string \<Rightarrow> pystr" where
  "str lit = map of_char lit"

definition in_ranges :: "nat \<Rightarrow> (nat \<times> nat) list \<Rightarrow> bool" where
  "in_ranges c rs = list_ex (\<lambda>(lo, hi). lo \<le> c \<and> c \<le> hi) rs"

text \<open>\<open>c.isspace()\<close>: the white space that \<open>strip\<close> removes.\<close>

definition space_ranges :: "(nat \<times> nat) list" where
  "space_ranges =
    [(9, 13), (28, 32), (133, 133), (160, 160), (5760, 5760), (8192, 8202), (8232, 8233),
     (8239, 8239), (8287, 8287), (12288, 12288)]"

definition isspace :: "nat \<Rightarrow> bool" where
  "isspace c = in_ranges c space_ranges"

text \<open>\<open>c.isdigit()\<close>: the characters of numeric type Decimal or Digit.\<close>

definition digit_ranges :: "(nat \<times> nat) list" where
  "digit_ranges =
    [(48, 57), (178, 179), (185, 185), (1632, 1641), (1776, 1785), (1984, 1993), (2406, 2415),
     (2534, 2543), (2662, 2671), (2790, 2799), (2918, 2927), (3046, 3055), (3174, 3183),
     (3302, 3311), (3430, 3439), (3558, 3567), (3664, 3673), (3792, 3801), (3872, 3881),
     (4160, 4169), (4240, 4249), (4969, 4977), (6112, 6121), (6160, 6169), (6470, 6479),
     (6608, 6618), (6784, 6793), (6800, 6809), (6992, 7001), (7088, 7097), (7232, 7241),
     (7248, 7257), (8304, 8304), (8308, 8313), (8320, 8329), (9312, 9320), (9332, 9340),
     (9352, 9360), (9450, 9450), (9461, 9469), (9471, 9471), (10102, 10110), (10112, 10120),
     (10122, 10130), (42528, 42537), (43216, 43225), (43264, 43273), (43472, 43481),
     (43504, 43513), (43600, 43609), (44016, 44025), (65296, 65305), (66720, 66729),
     (68160, 68163), (68912, 68921), (69216, 69224), (69714, 69722), (69734, 69743),
     (69872, 69881), (69942, 69951), (70096, 70105), (70384, 70393), (70736, 70745),
     (70864, 70873), (71248, 71257), (71360, 71369), (71472, 71481), (71904, 71913),
     (72016, 72025), (72784, 72793), (73040, 73049), (73120, 73129), (92768, 92777),
     (92864, 92873), (93008, 93017), (120782, 120831), (123200, 123209), (123632, 123641),
     (125264, 125273), (127232, 127242), (130032, 130041)]"

definition isdigit :: "nat \<Rightarrow> bool" where
  "isdigit c = in_ranges c digit_ranges"

text \<open>
  The lower-case mapping of one character. An entry \<open>(lo, hi, step, t)\<close> of the table sends
  every \<open>step\<close>-th character from \<open>lo\<close> up to \<open>hi\<close> to the character as far above \<open>t\<close> as
  it is above \<open>lo\<close>. The capital I with dot above (U+0130) alone becomes two characters;
  a character in no entry stays as it is.
\<close>

definition lower_table :: "(nat \<times> nat \<times> nat \<times> nat) list" where
  "lower_table =
    [(65, 90, 1, 97), (192, 214, 1, 224), (216, 222, 1, 248), (256, 302, 2, 257),
     (306, 310, 2, 307), (313, 327, 2, 314), (330, 374, 2, 331), (376, 376, 1, 255),
     (377, 381, 2, 378), (385, 385, 1, 595), (386, 388, 2, 387), (390, 390, 1, 596),
     (391, 391, 1, 392), (393, 394, 1, 598), (395, 395, 1, 396), (398, 398, 1, 477),
     (399, 399, 1, 601), (400, 400, 1, 603), (401, 401, 1, 402), (403, 403, 1, 608),
     (404, 404, 1, 611), (406, 406, 1, 617), (407, 407, 1, 616), (408, 408, 1, 409),
     (412, 412, 1, 623), (413, 413, 1, 626), (415, 415, 1, 629), (416, 420, 2, 417),
     (422, 422, 1, 640), (423, 423, 1, 424), (425, 425, 1, 643), (428, 428, 1, 429),
     (430, 430, 1, 648), (431, 431, 1, 432), (433, 434, 1, 650), (435, 437, 2, 436),
     (439, 439, 1, 658), (440, 440, 1, 441), (444, 444, 1, 445), (452, 452, 1, 454),
     (453, 453, 1, 454), (455, 455, 1, 457), (456, 456, 1, 457), (458, 458, 1, 460),
     (459, 475, 2, 460), (478, 494, 2, 479), (497, 497, 1, 499), (498, 500, 2, 499),
     (502, 502, 1, 405), (503, 503, 1, 447), (504, 542, 2, 505), (544, 544, 1, 414),
     (546, 562, 2, 547), (570, 570, 1, 11365), (571, 571, 1, 572), (573, 573, 1, 410),
     (574, 574, 1, 11366), (577, 577, 1, 578), (579, 579, 1, 384), (580, 580, 1, 649),
     (581, 581, 1, 652), (582, 590, 2, 583), (880, 882, 2, 881), (886, 886, 1, 887),
     (895, 895, 1, 1011), (902, 902, 1, 940), (904, 906, 1, 941), (908, 908, 1, 972),
     (910, 911, 1, 973), (913, 929, 1, 945), (932, 939, 1, 964), (975, 975, 1, 983),
     (984, 1006, 2, 985), (1012, 1012, 1, 952), (1015, 1015, 1, 1016), (1017, 1017, 1, 1010),
     (1018, 1018, 1, 1019), (1021, 1023, 1, 891), (1024, 1039, 1, 1104), (1040, 1071, 1, 1072),
     (1120, 1152, 2, 1121), (1162, 1214, 2, 1163), (1216, 1216, 1, 1231),
     (1217, 1229, 2, 1218), (1232, 1326, 2, 1233), (1329, 1366, 1, 1377),
     (4256, 4293, 1, 11520), (4295, 4295, 1, 11559), (4301, 4301, 1, 11565),
     (5024, 5103, 1, 43888), (5104, 5109, 1, 5112), (7312, 7354, 1, 4304),
     (7357, 7359, 1, 4349), (7680, 7828, 2, 7681), (7838, 7838, 1, 223), (7840, 7934, 2, 7841),
     (7944, 7951, 1, 7936), (7960, 7965, 1, 7952), (7976, 7983, 1, 7968),
     (7992, 7999, 1, 7984), (8008, 8013, 1, 8000), (8025, 8031, 2, 8017),
     (8040, 8047, 1, 8032), (8072, 8079, 1, 8064), (8088, 8095, 1, 8080),
     (8104, 8111, 1, 8096), (8120, 8121, 1, 8112), (8122, 8123, 1, 8048),
     (8124, 8124, 1, 8115), (8136, 8139, 1, 8050), (8140, 8140, 1, 8131),
     (8152, 8153, 1, 8144), (8154, 8155, 1, 8054), (8168, 8169, 1, 8160),
     (8170, 8171, 1, 8058), (8172, 8172, 1, 8165), (8184, 8185, 1, 8056),
     (8186, 8187, 1, 8060), (8188, 8188, 1, 8179), (8486, 8486, 1, 969), (8490, 8490, 1, 107),
     (8491, 8491, 1, 229), (8498, 8498, 1, 8526), (8544, 8559, 1, 8560), (8579, 8579, 1, 8580),
     (9398, 9423, 1, 9424), (11264, 11311, 1, 11312), (11360, 11360, 1, 11361),
     (11362, 11362, 1, 619), (11363, 11363, 1, 7549), (11364, 11364, 1, 637),
     (11367, 11371, 2, 11368), (11373, 11373, 1, 593), (11374, 11374, 1, 625),
     (11375, 11375, 1, 592), (11376, 11376, 1, 594), (11378, 11378, 1, 11379),
     (11381, 11381, 1, 11382), (11390, 11391, 1, 575), (11392, 11490, 2, 11393),
     (11499, 11501, 2, 11500), (11506, 11506, 1, 11507), (42560, 42604, 2, 42561),
     (42624, 42650, 2, 42625), (42786, 42798, 2, 42787), (42802, 42862, 2, 42803),
     (42873, 42875, 2, 42874), (42877, 42877, 1, 7545), (42878, 42886, 2, 42879),
     (42891, 42891, 1, 42892), (42893, 42893, 1, 613), (42896, 42898, 2, 42897),
     (42902, 42920, 2, 42903), (42922, 42922, 1, 614), (42923, 42923, 1, 604),
     (42924, 42924, 1, 609), (42925, 42925, 1, 620), (42926, 42926, 1, 618),
     (42928, 42928, 1, 670), (42929, 42929, 1, 647), (42930, 42930, 1, 669),
     (42931, 42931, 1, 43859), (42932, 42946, 2, 42933), (42948, 42948, 1, 42900),
     (42949, 42949, 1, 642), (42950, 42950, 1, 7566), (42951, 42953, 2, 42952),
     (42960, 42960, 1, 42961), (42966, 42968, 2, 42967), (42997, 42997, 1, 42998),
     (65313, 65338, 1, 65345), (66560, 66599, 1, 66600), (66736, 66771, 1, 66776),
     (66928, 66938, 1, 66967), (66940, 66954, 1, 66979), (66956, 66962, 1, 66995),
     (66964, 66965, 1, 67003), (68736, 68786, 1, 68800), (71840, 71871, 1, 71872),
     (93760, 93791, 1, 93792), (125184, 125217, 1, 125218)]"

definition covers :: "nat \<Rightarrow> nat \<times> nat \<times> nat \<times> nat \<Rightarrow> bool" where
  "covers c e = (case e of (lo, hi, step, t) \<Rightarrow> lo \<le> c \<and> c \<le> hi \<and> (c - lo) mod step = 0)"

definition to_lower :: "nat \<Rightarrow> pystr" where
  "to_lower c =
     (if c = 0x130 then [0x69, 0x307]
      else (case find (covers c) lower_table of
              None \<Rightarrow> [c]
            | Some (lo, hi, step, t) \<Rightarrow> [t + (c - lo)]))"

text \<open>
  The capital sigma (U+03A3) is lowered by its place in the word: to the final form
  U+03C2 when, case-ignorable characters skipped, a cased character stands before it and
  none after it, and to U+03C3 otherwise. The test for a cased character is only made on
  characters that are not case-ignorable, which is what \<open>cased_ranges\<close> lists.
\<close>

definition cased_ranges :: "(nat \<times> nat) list" where
  "cased_ranges =
    [(65, 90), (97, 122), (170, 170), (181, 181), (186, 186), (192, 214), (216, 246),
     (248, 442), (444, 447), (452, 659), (661, 687), (880, 883), (886, 887), (891, 893),
     (895, 895), (902, 902), (904, 906), (908, 908), (910, 929), (931, 1013), (1015, 1153),
     (1162, 1327), (1329, 1366), (1376, 1416), (4256, 4293), (4295, 4295), (4301, 4301),
     (4304, 4346), (4349, 4351), (5024, 5109), (5112, 5117), (7296, 7304), (7312, 7354),
     (7357, 7359), (7424, 7467), (7531, 7543), (7545, 7578), (7680, 7957), (7960, 7965),
     (7968, 8005), (8008, 8013), (8016, 8023), (8025, 8025), (8027, 8027), (8029, 8029),
     (8031, 8061), (8064, 8116), (8118, 8124), (8126, 8126), (8130, 8132), (8134, 8140),
     (8144, 8147), (8150, 8155), (8160, 8172), (8178, 8180), (8182, 8188), (8450, 8450),
     (8455, 8455), (8458, 8467), (8469, 8469), (8473, 8477), (8484, 8484), (8486, 8486),
     (8488, 8488), (8490, 8493), (8495, 8500), (8505, 8505), (8508, 8511), (8517, 8521),
     (8526, 8526), (8544, 8575), (8579, 8580), (9398, 9449), (11264, 11387), (11390, 11492),
     (11499, 11502), (11506, 11507), (11520, 11557), (11559, 11559), (11565, 11565),
     (42560, 42605), (42624, 42651), (42786, 42863), (42865, 42887), (42891, 42894),
     (42896, 42954), (42960, 42961), (42963, 42963), (42965, 42969), (42997, 42998),
     (43002, 43002), (43824, 43866), (43872, 43880), (43888, 43967), (64256, 64262),
     (64275, 64279), (65313, 65338), (65345, 65370), (66560, 66639), (66736, 66771),
     (66776, 66811), (66928, 66938), (66940, 66954), (66956, 66962), (66964, 66965),
     (66967, 66977), (66979, 66993), (66995, 67001), (67003, 67004), (68736, 68786),
     (68800, 68850), (71840, 71903), (93760, 93823), (119808, 119892), (119894, 119964),
     (119966, 119967), (119970, 119970), (119973, 119974), (119977, 119980), (119982, 119993),
     (119995, 119995), (119997, 120003), (120005, 120069), (120071, 120074), (120077, 120084),
     (120086, 120092), (120094, 120121), (120123, 120126), (120128, 120132), (120134, 120134),
     (120138, 120144), (120146, 120485), (120488, 120512), (120514, 120538), (120540, 120570),
     (120572, 120596), (120598, 120628), (120630, 120654), (120656, 120686), (120688, 120712),
     (120714, 120744), (120746, 120770), (120772, 120779), (122624, 122633), (122635, 122654),
     (125184, 125251), (127280, 127305), (127312, 127337), (127344, 127369)]"

definition case_ignorable_ranges :: "(nat \<times> nat) list" where
  "case_ignorable_ranges =
    [(39, 39), (46, 46), (58, 58), (94, 94), (96, 96), (168, 168), (173, 173), (175, 175),
     (180, 180), (183, 184), (688, 879), (884, 885), (890, 890), (900, 901), (903, 903),
     (1155, 1161), (1369, 1369), (1375, 1375), (1425, 1469), (1471, 1471), (1473, 1474),
     (1476, 1477), (1479, 1479), (1524, 1524), (1536, 1541), (1552, 1562), (1564, 1564),
     (1600, 1600), (1611, 1631), (1648, 1648), (1750, 1757), (1759, 1768), (1770, 1773),
     (1807, 1807), (1809, 1809), (1840, 1866), (1958, 1968), (2027, 2037), (2042, 2042),
     (2045, 2045), (2070, 2093), (2137, 2139), (2184, 2184), (2192, 2193), (2200, 2207),
     (2249, 2306), (2362, 2362), (2364, 2364), (2369, 2376), (2381, 2381), (2385, 2391),
     (2402, 2403), (2417, 2417), (2433, 2433), (2492, 2492), (2497, 2500), (2509, 2509),
     (2530, 2531), (2558, 2558), (2561, 2562), (2620, 2620), (2625, 2626), (2631, 2632),
     (2635, 2637), (2641, 2641), (2672, 2673), (2677, 2677), (2689, 2690), (2748, 2748),
     (2753, 2757), (2759, 2760), (2765, 2765), (2786, 2787), (2810, 2815), (2817, 2817),
     (2876, 2876), (2879, 2879), (2881, 2884), (2893, 2893), (2901, 2902), (2914, 2915),
     (2946, 2946), (3008, 3008), (3021, 3021), (3072, 3072), (3076, 3076), (3132, 3132),
     (3134, 3136), (3142, 3144), (3146, 3149), (3157, 3158), (3170, 3171), (3201, 3201),
     (3260, 3260), (3263, 3263), (3270, 3270), (3276, 3277), (3298, 3299), (3328, 3329),
     (3387, 3388), (3393, 3396), (3405, 3405), (3426, 3427), (3457, 3457), (3530, 3530),
     (3538, 3540), (3542, 3542), (3633, 3633), (3636, 3642), (3654, 3662), (3761, 3761),
     (3764, 3772), (3782, 3782), (3784, 3789), (3864, 3865), (3893, 3893), (3895, 3895),
     (3897, 3897), (3953, 3966), (3968, 3972), (3974, 3975), (3981, 3991), (3993, 4028),
     (4038, 4038), (4141, 4144), (4146, 4151), (4153, 4154), (4157, 4158), (4184, 4185),
     (4190, 4192), (4209, 4212), (4226, 4226), (4229, 4230), (4237, 4237), (4253, 4253),
     (4348, 4348), (4957, 4959), (5906, 5908), (5938, 5939), (5970, 5971), (6002, 6003),
     (6068, 6069), (6071, 6077), (6086, 6086), (6089, 6099), (6103, 6103), (6109, 6109),
     (6155, 6159), (6211, 6211), (6277, 6278), (6313, 6313), (6432, 6434), (6439, 6440),
     (6450, 6450), (6457, 6459), (6679, 6680), (6683, 6683), (6742, 6742), (6744, 6750),
     (6752, 6752), (6754, 6754), (6757, 6764), (6771, 6780), (6783, 6783), (6823, 6823),
     (6832, 6862), (6912, 6915), (6964, 6964), (6966, 6970), (6972, 6972), (6978, 6978),
     (7019, 7027), (7040, 7041), (7074, 7077), (7080, 7081), (7083, 7085), (7142, 7142),
     (7144, 7145), (7149, 7149), (7151, 7153), (7212, 7219), (7222, 7223), (7288, 7293),
     (7376, 7378), (7380, 7392), (7394, 7400), (7405, 7405), (7412, 7412), (7416, 7417),
     (7468, 7530), (7544, 7544), (7579, 7679), (8125, 8125), (8127, 8129), (8141, 8143),
     (8157, 8159), (8173, 8175), (8189, 8190), (8203, 8207), (8216, 8217), (8228, 8228),
     (8231, 8231), (8234, 8238), (8288, 8292), (8294, 8303), (8305, 8305), (8319, 8319),
     (8336, 8348), (8400, 8432), (11388, 11389), (11503, 11505), (11631, 11631),
     (11647, 11647), (11744, 11775), (11823, 11823), (12293, 12293), (12330, 12333),
     (12337, 12341), (12347, 12347), (12441, 12446), (12540, 12542), (40981, 40981),
     (42232, 42237), (42508, 42508), (42607, 42610), (42612, 42621), (42623, 42623),
     (42652, 42655), (42736, 42737), (42752, 42785), (42864, 42864), (42888, 42890),
     (42994, 42996), (43000, 43001), (43010, 43010), (43014, 43014), (43019, 43019),
     (43045, 43046), (43052, 43052), (43204, 43205), (43232, 43249), (43263, 43263),
     (43302, 43309), (43335, 43345), (43392, 43394), (43443, 43443), (43446, 43449),
     (43452, 43453), (43471, 43471), (43493, 43494), (43561, 43566), (43569, 43570),
     (43573, 43574), (43587, 43587), (43596, 43596), (43632, 43632), (43644, 43644),
     (43696, 43696), (43698, 43700), (43703, 43704), (43710, 43711), (43713, 43713),
     (43741, 43741), (43756, 43757), (43763, 43764), (43766, 43766), (43867, 43871),
     (43881, 43883), (44005, 44005), (44008, 44008), (44013, 44013), (64286, 64286),
     (64434, 64450), (65024, 65039), (65043, 65043), (65056, 65071), (65106, 65106),
     (65109, 65109), (65279, 65279), (65287, 65287), (65294, 65294), (65306, 65306),
     (65342, 65342), (65344, 65344), (65392, 65392), (65438, 65439), (65507, 65507),
     (65529, 65531), (66045, 66045), (66272, 66272), (66422, 66426), (67456, 67461),
     (67463, 67504), (67506, 67514), (68097, 68099), (68101, 68102), (68108, 68111),
     (68152, 68154), (68159, 68159), (68325, 68326), (68900, 68903), (69291, 69292),
     (69446, 69456), (69506, 69509), (69633, 69633), (69688, 69702), (69744, 69744),
     (69747, 69748), (69759, 69761), (69811, 69814), (69817, 69818), (69821, 69821),
     (69826, 69826), (69837, 69837), (69888, 69890), (69927, 69931), (69933, 69940),
     (70003, 70003), (70016, 70017), (70070, 70078), (70089, 70092), (70095, 70095),
     (70191, 70193), (70196, 70196), (70198, 70199), (70206, 70206), (70367, 70367),
     (70371, 70378), (70400, 70401), (70459, 70460), (70464, 70464), (70502, 70508),
     (70512, 70516), (70712, 70719), (70722, 70724), (70726, 70726), (70750, 70750),
     (70835, 70840), (70842, 70842), (70847, 70848), (70850, 70851), (71090, 71093),
     (71100, 71101), (71103, 71104), (71132, 71133), (71219, 71226), (71229, 71229),
     (71231, 71232), (71339, 71339), (71341, 71341), (71344, 71349), (71351, 71351),
     (71453, 71455), (71458, 71461), (71463, 71467), (71727, 71735), (71737, 71738),
     (71995, 71996), (71998, 71998), (72003, 72003), (72148, 72151), (72154, 72155),
     (72160, 72160), (72193, 72202), (72243, 72248), (72251, 72254), (72263, 72263),
     (72273, 72278), (72281, 72283), (72330, 72342), (72344, 72345), (72752, 72758),
     (72760, 72765), (72767, 72767), (72850, 72871), (72874, 72880), (72882, 72883),
     (72885, 72886), (73009, 73014), (73018, 73018), (73020, 73021), (73023, 73029),
     (73031, 73031), (73104, 73105), (73109, 73109), (73111, 73111), (73459, 73460),
     (78896, 78904), (92912, 92916), (92976, 92982), (92992, 92995), (94031, 94031),
     (94095, 94111), (94176, 94177), (94179, 94180), (110576, 110579), (110581, 110587),
     (110589, 110590), (113821, 113822), (113824, 113827), (118528, 118573), (118576, 118598),
     (119143, 119145), (119155, 119170), (119173, 119179), (119210, 119213), (119362, 119364),
     (121344, 121398), (121403, 121452), (121461, 121461), (121476, 121476), (121499, 121503),
     (121505, 121519), (122880, 122886), (122888, 122904), (122907, 122913), (122915, 122916),
     (122918, 122922), (123184, 123197), (123566, 123566), (123628, 123631), (125136, 125142),
     (125252, 125259), (127995, 127999), (917505, 917505), (917536, 917631), (917760, 917999)]"

definition cased :: "nat \<Rightarrow> bool" where
  "cased c = in_ranges c cased_ranges"

definition case_ignorable :: "nat \<Rightarrow> bool" where
  "case_ignorable c = in_ranges c case_ignorable_ranges"

definition final_sigma :: "pystr \<Rightarrow> pystr \<Rightarrow> bool" where
  "final_sigma passed rest =
     (case dropWhile case_ignorable passed of
        [] \<Rightarrow> False
      | b # bs \<Rightarrow>
          cased b \<and>
          (case dropWhile case_ignorable rest of
             [] \<Rightarrow> True
           | a # more_rest \<Rightarrow> \<not> cased a))"

text \<open>
  \<open>s.lower()\<close>, character by character; \<open>passed\<close> holds the characters already
  lowered, the nearest first.
\<close>

fun lower_from :: "pystr \<Rightarrow> pystr \<Rightarrow> pystr" where
  "lower_from passed [] = []"
| "lower_from passed (c # rest) =
     (if c = 0x3A3 then [if final_sigma passed rest then 0x3C2 else 0x3C3] else to_lower c)
       @ lower_from (c # passed) rest"

definition lower :: "pystr \<Rightarrow> pystr" where
  "lower s = lower_from [] s"

text \<open>\<open>s.strip()\<close>: white space removed at both ends.\<close>

definition strip :: "pystr \<Rightarrow> pystr" where
  "strip s = rev (dropWhile isspace (rev (dropWhile isspace s)))"

text \<open>
  \<open>s.split(sep)\<close> for a separator that is not empty: the text is cut at the occurrences
  of \<open>sep\<close> found from left to right without overlap, and the result always has at least
  one segment. Python raises ValueError on an empty separator; the program only splits at
  literals, so that case is left as a single segment here.
\<close>

function str_split :: "pystr \<Rightarrow> pystr \<Rightarrow> pystr list" where
  "str_split sep [] = [[]]"
| "str_split sep (c # cs) =
     (if sep \<noteq> [] \<and> prefix sep (c # cs)
      then [] # str_split sep (drop (length sep) (c # cs))
      else (case str_split sep cs of
              [] \<Rightarrow> [[c]]
            | p # ps \<Rightarrow> (c # p) # ps))"
  by pat_completeness auto
termination
  by (relation "measure (\<lambda>(sep, s). length s)") (auto simp: neq_Nil_conv)

text \<open>\<open>sub in s\<close> on strings is \<^const>\<open>sublist\<close>: \<open>sub\<close> occurs in \<open>s\<close> as a block.\<close>

section \<open>Exceptions\<close>

text \<open>
  The exceptions the program can meet: those raised by Python's own indexing and tuple
  unpacking, and any failure raised by an external provider (the generation endpoint or
  the music catalog). All of them are subclasses of \<open>Exception\<close>.
\<close>

datatype error = IndexError | KeyError | ValueError | ProviderFailure

text \<open>\<open>xs[i]\<close> for a non-negative literal index.\<close>

definition index :: "'a list \<Rightarrow> nat \<Rightarrow> error + 'a" where
  "index xs i = (if i < length xs then Inr (xs ! i) else Inl IndexError)"

text \<open>\<open>d.get(k, default)\<close> and \<open>d[k]\<close> on a dictionary.\<close>

definition dict_get :: "('k \<rightharpoonup> 'v) \<Rightarrow> 'k \<Rightarrow> 'v \<Rightarrow> 'v" where
  "dict_get d k dflt = (case d k of None \<Rightarrow> dflt | Some v \<Rightarrow> v)"

definition dict_item :: "('k \<rightharpoonup> 'v) \<Rightarrow> 'k \<Rightarrow> error + 'v" where
  "dict_item d k = (case d k of None \<Rightarrow> Inl KeyError | Some v \<Rightarrow> Inr v)"

section \<open>The playlist parser\<close>

text \<open>
  \<open>extract_songs\<close>: the loop over the lines, with the list \<open>songs\<close> built so far. A line
  is taken when its stripped text is not empty and its first character is a digit (Python's
  \<open>and\<close> reads \<open>line[0]\<close> only then, when the line is not empty). The index \<open>[1]\<close> into
  the split at \<open>". "\<close> is unguarded: its IndexError leaves the loop and the function.
\<close>

fun extract_loop :: "pystr list \<Rightarrow> (pystr \<times> pystr) list \<Rightarrow> error + (pystr \<times> pystr) list" where
  "extract_loop [] songs = Inr songs"
| "extract_loop (line # lines) songs =
     (if strip line = [] then extract_loop lines songs
      else if \<not> isdigit (hd line) then extract_loop lines songs
      else
        (let parts = str_split (str '' - '') line in
         if length parts = 2 then
           (case index (str_split (str ''. '') (parts ! 0)) 1 of
              Inl e \<Rightarrow> Inl e
            | Inr seg \<Rightarrow>
                (let song_title = strip seg;
                     artist = strip (parts ! 1)
                 in extract_loop lines (songs @ [(song_title, artist)])))
         else extract_loop lines songs))"

definition extract_songs :: "pystr \<Rightarrow> error + (pystr \<times> pystr) list" where
  "extract_songs playlist_text = extract_loop (str_split (str ''\<newline>'') playlist_text) []"

section \<open>The session and the external providers\<close>

text \<open>The global \<open>session\<close> dictionary and its initial value.\<close>

record Preferences =
  mood :: "pystr option"
  genre :: "pystr option"

record Session =
  state :: pystr
  preferences :: Preferences

definition session_init :: Session where
  "session_init = \<lparr>state = (str ''conversation''), preferences = \<lparr>mood = None, genre = None\<rparr>\<rparr>"

text \<open>
  The two calls of \<open>generate\<close> differ in their system prompt and in the values put into
  the query: the user's message with the current preferences, or the mood and genre.
\<close>

datatype gen_call =
    Classify pystr Preferences
  | Author pystr pystr

text \<open>Every call that leaves the process, in the order made.\<close>

datatype call =
    Generate gen_call
  | Search pystr
  | OAuth
  | PlaylistCreate pystr
  | AddItems pystr "pystr list"

type_synonym response = "pystr \<rightharpoonup> pystr"
type_synonym track = "pystr \<rightharpoonup> pystr"
type_synonym search_results = "pystr \<rightharpoonup> (pystr \<rightharpoonup> track list)"

text \<open>
  The playlist object returned by the catalog: \<open>playlist["id"]\<close> and
  \<open>playlist["external_urls"]\<close>, each absent (\<open>None\<close>) when the key is missing.
\<close>

record playlist =
  playlist_id :: "pystr option"
  external_urls :: "(pystr \<rightharpoonup> pystr) option"

text \<open>
  The behaviour of the providers. Each answer may depend on the calls made so far, so a
  provider may answer the same request differently at different times; \<open>Inl\<close> is a call
  that raises.
\<close>

record env =
  generate :: "call list \<Rightarrow> gen_call \<Rightarrow> error + response"
  sp_search :: "call list \<Rightarrow> pystr \<Rightarrow> error + search_results"
  spotify_oauth :: "call list \<Rightarrow> error + unit"
  user_playlist_create :: "call list \<Rightarrow> pystr \<Rightarrow> error + playlist"
  playlist_add_items :: "call list \<Rightarrow> pystr \<Rightarrow> pystr list \<Rightarrow> error + unit"

text \<open>The mutable state of the process and the calls it has made.\<close>

record world =
  session :: Session
  trace :: "call list"

definition called :: "call \<Rightarrow> world \<Rightarrow> world" where
  "called c w = w\<lparr>trace := trace w @ [c]\<rparr>"

section \<open>The track resolver\<close>

definition search_query :: "pystr \<Rightarrow> pystr \<Rightarrow> pystr" where
  "search_query song artist = (str ''track:'') @ song @ (str '' artist:'') @ artist"

text \<open>
  \<open>search_songs\<close>: one lookup for each song. Whatever is raised inside the \<open>try\<close> (by the
  search or by reading \<open>"uri"\<close>) is caught, and the loop goes on with the next song.
  The handler's \<open>print\<close> writes to the console only and is left out, here and in the
  publisher.
\<close>

fun search_loop :: "env \<Rightarrow> (pystr \<times> pystr) list \<Rightarrow> pystr list \<Rightarrow> world \<Rightarrow> pystr list \<times> world" where
  "search_loop env [] track_uris w = (track_uris, w)"
| "search_loop env ((song, artist) # rest) track_uris w =
     (let q = search_query song artist;
          w' = called (Search q) w
      in case sp_search env (trace w) q of
           Inl e \<Rightarrow> search_loop env rest track_uris w'
         | Inr results \<Rightarrow>
             (let tracks = dict_get (dict_get results (str ''tracks'') Map.empty) (str ''items'') [] in
              if tracks \<noteq> [] then
                (case dict_item (hd tracks) (str ''uri'') of
                   Inl e \<Rightarrow> search_loop env rest track_uris w'
                 | Inr uri \<Rightarrow> search_loop env rest (track_uris @ [uri]) w')
              else search_loop env rest track_uris w'))"

definition search_songs :: "env \<Rightarrow> (pystr \<times> pystr) list \<Rightarrow> world \<Rightarrow> pystr list \<times> world" where
  "search_songs env songs w = search_loop env songs [] w"

section \<open>The playlist publisher\<close>

text \<open>The body of the \<open>try\<close> of \<open>create_spotify_playlist\<close>.\<close>

definition create_spotify_playlist_try :: "env \<Rightarrow> pystr \<Rightarrow> pystr list \<Rightarrow> world \<Rightarrow> (error + pystr) \<times> world" where
  "create_spotify_playlist_try env playlist_name track_uris w =
     (let w1 = called OAuth w in
      case spotify_oauth env (trace w) of
        Inl e \<Rightarrow> (Inl e, w1)
      | Inr sp_auth \<Rightarrow>
          (let w2 = called (PlaylistCreate playlist_name) w1 in
           case user_playlist_create env (trace w1) playlist_name of
             Inl e \<Rightarrow> (Inl e, w2)
           | Inr playlist \<Rightarrow>
               (let link = (case external_urls playlist of
                              None \<Rightarrow> Inl KeyError
                            | Some urls \<Rightarrow> dict_item urls (str ''spotify''))
                in if track_uris \<noteq> [] then
                     (case playlist_id playlist of
                        None \<Rightarrow> (Inl KeyError, w2)
                      | Some pid \<Rightarrow>
                          (let w3 = called (AddItems pid track_uris) w2 in
                           case playlist_add_items env (trace w2) pid track_uris of
                             Inl e \<Rightarrow> (Inl e, w3)
                           | Inr done \<Rightarrow> (link, w3)))
                   else (link, w2))))"

text \<open>
  \<open>except Exception\<close>: every failure of the body becomes the return value \<open>None\<close>. The
  result keeps the type of a call that may raise, as the caller sees it.
\<close>

definition create_spotify_playlist ::
  "env \<Rightarrow> pystr \<Rightarrow> pystr list \<Rightarrow> world \<Rightarrow> (error + pystr option) \<times> world" where
  "create_spotify_playlist env playlist_name track_uris w =
     (case create_spotify_playlist_try env playlist_name track_uris w of
        (Inl e, w') \<Rightarrow> (Inr None, w')
      | (Inr url, w') \<Rightarrow> (Inr (Some url), w'))"

section \<open>The fixed replies\<close>

definition musical_note :: pystr where
  "musical_note = [0x1F3B5]"

definition musical_notes :: pystr where
  "musical_notes = [0x1F3B6]"

definition smiling_face :: pystr where
  "smiling_face = [0x1F60A]"

definition warning_sign :: pystr where
  "warning_sign = [0x26A0, 0xFE0F]"

definition retry_reply :: pystr where
  "retry_reply = musical_note @
     (str '' **Oops! Something went wrong.** Let's try again! Please share your mood and favorite genre, and I'll make a playlist for you. '')
     @ smiling_face"

definition undetermined_reply :: pystr where
  "undetermined_reply = warning_sign @ (str '' I couldn't determine both mood and genre. Try again!'')"

definition sorry_reply :: pystr where
  "sorry_reply = warning_sign @ (str '' Sorry, I couldn't generate a playlist. Try again!'')"

definition no_playlist_reply :: pystr where
  "no_playlist_reply = warning_sign @ (str '' Couldn't generate a playlist. Try again!'')"

definition listen_suffix :: "pystr \<Rightarrow> pystr" where
  "listen_suffix spotify_url =
     (str ''\<newline>\<newline>'') @ musical_notes @ (str '' **Listen on Spotify:** '') @ spotify_url"

definition degraded_suffix :: pystr where
  "degraded_suffix =
     (str ''\<newline>\<newline>'') @ warning_sign @ (str '' Couldn't create a Spotify playlist, but here are the songs!'')"

section \<open>Playlist generation\<close>

text \<open>
  \<open>generate_playlist\<close> returns a pair: \<open>None\<close> with a message when the generated text is
  empty, the text with the parsed songs otherwise. Nothing catches what \<open>generate\<close> or
  \<open>extract_songs\<close> raises.
\<close>

definition generate_playlist ::
  "env \<Rightarrow> pystr \<Rightarrow> pystr \<Rightarrow> world \<Rightarrow> (error + pystr option \<times> (pystr + (pystr \<times> pystr) list)) \<times> world" where
  "generate_playlist env mood_v genre_v w =
     (let w' = called (Generate (Author mood_v genre_v)) w in
      case generate env (trace w) (Author mood_v genre_v) of
        Inl e \<Rightarrow> (Inl e, w')
      | Inr response \<Rightarrow>
          (let playlist_text = strip (dict_get response (str ''response'') []) in
           if playlist_text = [] then (Inr (None, Inl sorry_reply), w')
           else (case extract_songs playlist_text of
                   Inl e \<Rightarrow> (Inl e, w')
                 | Inr songs \<Rightarrow> (Inr (Some playlist_text, Inr songs), w'))))"

section \<open>The message handler\<close>

text \<open>Python's truth value of a string or \<open>None\<close>, and its \<open>not\<close>.\<close>

definition truthy :: "pystr option \<Rightarrow> bool" where
  "truthy v = (case v of None \<Rightarrow> False | Some s \<Rightarrow> s \<noteq> [])"

definition falsy :: "pystr option \<Rightarrow> bool" where
  "falsy v = (case v of None \<Rightarrow> True | Some s \<Rightarrow> s = [])"

text \<open>The two conditions of \<open>music_assistant_llm\<close> on the lowered response text.\<close>

definition is_filtered :: "pystr \<Rightarrow> bool" where
  "is_filtered response_text = sublist (str ''blocked by content filtering'') (lower response_text)"

definition has_markers :: "pystr \<Rightarrow> bool" where
  "has_markers response_text =
     (sublist (str ''mood:'') (lower response_text) \<and> sublist (str ''genre:'') (lower response_text))"

text \<open>
  The body of the \<open>try\<close> of \<open>music_assistant_llm\<close>: the text is split at the markers as they
  are written in the source, \<open>Mood:\<close> and \<open>Genre:\<close>.
\<close>

definition split_markers :: "pystr \<Rightarrow> error + pystr \<times> pystr" where
  "split_markers response_text =
     (case index (str_split (str ''Mood:'') response_text) 1 of
        Inl e \<Rightarrow> Inl e
      | Inr after_mood \<Rightarrow>
          (case index (str_split (str ''Genre:'') after_mood) 0 of
             Inl e \<Rightarrow> Inl e
           | Inr between \<Rightarrow>
               (case index (str_split (str ''Genre:'') response_text) 1 of
                  Inl e \<Rightarrow> Inl e
                | Inr after_genre \<Rightarrow> Inr (strip between, strip after_genre))))"

text \<open>
  The rest of the handler once \<open>mood\<close> and \<open>genre\<close> are both true: the preferences are
  stored, then the playlist is generated, resolved and published. When the playlist text is
  true the second component is the list of songs; iterating over a message instead would
  fail to unpack its characters.
\<close>

definition commit_and_publish :: "env \<Rightarrow> pystr \<Rightarrow> pystr \<Rightarrow> world \<Rightarrow> (error + pystr) \<times> world" where
  "commit_and_publish env mood_v genre_v w =
     (let w1 = w\<lparr>session := (session w)\<lparr>preferences :=
                   (preferences (session w))\<lparr>mood := Some mood_v, genre := Some genre_v\<rparr>\<rparr>\<rparr>
      in case generate_playlist env mood_v genre_v w1 of
           (Inl e, w2) \<Rightarrow> (Inl e, w2)
         | (Inr (playlist_text, songs), w2) \<Rightarrow>
             if falsy playlist_text then (Inr no_playlist_reply, w2)
             else (case songs of
                     Inl message \<Rightarrow> (Inl ValueError, w2)
                   | Inr songs \<Rightarrow>
                       (case search_songs env songs w2 of
                          (track_uris, w3) \<Rightarrow>
                            (case create_spotify_playlist env
                                    (mood_v @ (str '' '') @ genre_v @ (str '' Playlist'')) track_uris w3 of
                               (Inl e, w4) \<Rightarrow> (Inl e, w4)
                             | (Inr spotify_url, w4) \<Rightarrow>
                                 if truthy spotify_url
                                 then (Inr (the playlist_text @ listen_suffix (the spotify_url)), w4)
                                 else (Inr (the playlist_text @ degraded_suffix), w4)))))"

text \<open>
  \<open>music_assistant_llm\<close>. \<open>except IndexError\<close> catches that exception only; \<open>mood\<close> and
  \<open>genre\<close> stay \<open>None\<close> when the markers are not both found in the lowered text.
\<close>

definition music_assistant_llm :: "env \<Rightarrow> pystr \<Rightarrow> world \<Rightarrow> (error + pystr) \<times> world" where
  "music_assistant_llm env message w =
     (let request = Classify message (preferences (session w));
          w1 = called (Generate request) w
      in case generate env (trace w) request of
           Inl e \<Rightarrow> (Inl e, w1)
         | Inr response \<Rightarrow>
             (let response_text = strip (dict_get response (str ''response'') []) in
              if is_filtered response_text then (Inr retry_reply, w1)
              else
                (case (if has_markers response_text
                       then (case split_markers response_text of
                               Inl e \<Rightarrow> Inl e
                             | Inr (m, g) \<Rightarrow> Inr (Some m, Some g))
                       else Inr (None, None)) of
                   Inl e \<Rightarrow> (if e = IndexError then (Inr undetermined_reply, w1) else (Inl e, w1))
                 | Inr (mood_v, genre_v) \<Rightarrow>
                     if falsy mood_v \<or> falsy genre_v then (Inr response_text, w1)
                     else commit_and_publish env (the mood_v) (the genre_v) w1)))"

text \<open>The process handles one message after the other, each against the providers of its time.\<close>

fun run :: "(env \<times> pystr) list \<Rightarrow> world \<Rightarrow> world" where
  "run [] w = w"
| "run ((env, message) # rest) w = run rest (snd (music_assistant_llm env message w))"

definition world_init :: world where
  "world_init = \<lparr>session = session_init, trace = []\<rparr>"

section \<open>The outcome of the preference extraction\<close>

text \<open>
  The four outcomes the handler distinguishes on the stripped response text, in the order
  of its tests: filtered content; markers found but not splittable; a field missing or
  empty; both fields present.
\<close>

datatype outcome = Filtered | ParseFailure | Incomplete | Complete pystr pystr

definition extraction :: "pystr \<Rightarrow> outcome" where
  "extraction response_text =
     (if is_filtered response_text then Filtered
      else if has_markers response_text then
        (case split_markers response_text of
           Inl e \<Rightarrow> ParseFailure
         | Inr (m, g) \<Rightarrow> if m = [] \<or> g = [] then Incomplete else Complete m g)
      else Incomplete)"

text \<open>
  The invariant of the stored preferences: both fields are \<open>None\<close>, or both hold a string
  that is not empty and has no white space at either end: its first and its last character
  are not white space.
\<close>

definition trimmed :: "pystr \<Rightarrow> bool" where
  "trimmed s = (s \<noteq> [] \<and> \<not> isspace (hd s) \<and> \<not> isspace (last s))"

definition prefs_ok :: "Preferences \<Rightarrow> bool" where
  "prefs_ok p =
     (case (mood p, genre p) of
        (None, None) \<Rightarrow> True
      | (Some m, Some g) \<Rightarrow> trimmed m \<and> trimmed g
      | _ \<Rightarrow> False)"

definition prefs_after :: "(env \<times> pystr) list \<Rightarrow> Preferences" where
  "prefs_after steps = preferences (session (run steps world_init))"

section \<open>Providers for the examples\<close>

text \<open>
  A catalog that finds a track for every song but raises on the lookup of \<open>Take Five\<close>,
  and providers that answer every classification with one text and every playlist request
  with another; authentication succeeds or fails as given.
\<close>

definition demo_search :: "call list \<Rightarrow> pystr \<Rightarrow> error + search_results" where
  "demo_search tr q =
     (if q = search_query (str ''Take Five'') (str ''Dave Brubeck'') then Inl ProviderFailure
      else Inr [(str ''tracks'') \<mapsto> [(str ''items'') \<mapsto> [[(str ''uri'') \<mapsto> (str ''spotify:track:'') @ q]]]])"

definition demo_playlist :: playlist where
  "demo_playlist = \<lparr>playlist_id = Some (str ''p1''),
                     external_urls = Some [(str ''spotify'') \<mapsto> (str ''https://open.spotify.com/playlist/p1'')]\<rparr>"

definition demo_env :: "pystr \<Rightarrow> pystr \<Rightarrow> error + unit \<Rightarrow> env" where
  "demo_env classification playlist_text auth =
     \<lparr>generate = (\<lambda>tr c. case c of
                          Classify message p \<Rightarrow> Inr [(str ''response'') \<mapsto> classification]
                        | Author m g \<Rightarrow> Inr [(str ''response'') \<mapsto> playlist_text]),
      sp_search = demo_search,
      spotify_oauth = (\<lambda>tr. auth),
      user_playlist_create = (\<lambda>tr name. Inr demo_playlist),
      playlist_add_items = (\<lambda>tr pid uris. Inr ())\<rparr>"

definition jazz_text :: pystr where
  "jazz_text = (str ''Playlist: Late Night\<newline>1. So What - Miles Davis\<newline>2. Take Five - Dave Brubeck\<newline>3. Blue in Green - Bill Evans'')"


section \<open>Lookups and their top matches\<close>

text \<open>
  The answers of the catalog to the lookups of a list of songs, one after the other from a
  given trace; and the identifier of the top match of an answer, when the lookup returned
  at least one track and that track has an identifier.
\<close>

fun lookups :: "env \<Rightarrow> call list \<Rightarrow> (pystr \<times> pystr) list \<Rightarrow> (error + search_results) list" where
  "lookups env tr [] = []"
| "lookups env tr ((song, artist) # rest) =
     sp_search env tr (search_query song artist)
       # lookups env (tr @ [Search (search_query song artist)]) rest"

definition top_match :: "error + search_results \<Rightarrow> pystr option" where
  "top_match answer =
     (case answer of
        Inl e \<Rightarrow> None
      | Inr results \<Rightarrow>
          (case results (str ''tracks'') of
             None \<Rightarrow> None
           | Some page \<Rightarrow>
               (case page (str ''items'') of
                  None \<Rightarrow> None
                | Some [] \<Rightarrow> None
                | Some (t # ts) \<Rightarrow> t (str ''uri''))))"

definition search_call :: "pystr \<times> pystr \<Rightarrow> call" where
  "search_call s = (case s of (song, artist) \<Rightarrow> Search (search_query song artist))"

section \<open>Texts for the examples\<close>

text \<open>A text of eleven numbered lines.\<close>

definition eleven_lines :: pystr where
  "eleven_lines =
     (str ''1. Song 1 - Artist 1\<newline>2. Song 2 - Artist 2\<newline>3. Song 3 - Artist 3\<newline>4. Song 4 - Artist 4\<newline>5. Song 5 - Artist 5\<newline>6. Song 6 - Artist 6\<newline>7. Song 7 - Artist 7\<newline>8. Song 8 - Artist 8\<newline>9. Song 9 - Artist 9\<newline>10. Song 10 - Artist 10\<newline>11. Song 11 - Artist 11'')"

section \<open>Facts about the character tables\<close>

lemma in_ranges_Cons: "in_ranges c ((lo, hi) # rs) = (lo \<le> c \<and> c \<le> hi \<or> in_ranges c rs)"
  by (simp add: in_ranges_def)

lemma in_ranges_below:
  "list_all (\<lambda>(lo, hi). n \<le> lo) rs \<Longrightarrow> c < n \<Longrightarrow> \<not> in_ranges c rs"
  by (induction rs) (auto simp: in_ranges_def)

lemma digit_ranges_tail: "list_all (\<lambda>(lo, hi). 128 \<le> lo) (tl digit_ranges)"
  by (simp add: digit_ranges_def)

lemma isdigit_ascii:
  assumes "c < 128"
  shows "isdigit c = (48 \<le> c \<and> c \<le> 57)"
proof -
  have "digit_ranges = (48, 57) # tl digit_ranges" by (simp add: digit_ranges_def)
  then have "isdigit c = (48 \<le> c \<and> c \<le> 57 \<or> in_ranges c (tl digit_ranges))"
    unfolding isdigit_def by (metis in_ranges_Cons)
  then show ?thesis using in_ranges_below [OF digit_ranges_tail assms] by simp
qed

lemma find_covers_below:
  "list_all (\<lambda>(lo, hi, step, t). n \<le> lo) tbl \<Longrightarrow> c < n \<Longrightarrow> find (covers c) tbl = None"
  by (induction tbl) (auto simp: covers_def)

lemma find_covers_outside:
  "list_all (\<lambda>(lo, hi, step, t). hi < a \<or> b < lo) tbl \<Longrightarrow> a \<le> c \<Longrightarrow> c \<le> b \<Longrightarrow>
   find (covers c) tbl = None"
  by (induction tbl) (auto simp: covers_def)

lemma lower_table_head: "lower_table = (65, 90, 1, 97) # tl lower_table"
  by (simp add: lower_table_def)

lemma lower_table_tail: "list_all (\<lambda>(lo, hi, step, t). 128 \<le> lo) (tl lower_table)"
  by (simp add: lower_table_def)

lemma to_lower_ascii:
  assumes "c < 128"
  shows "to_lower c = [if 65 \<le> c \<and> c \<le> 90 then c + 32 else c]"
proof -
  have n: "find (covers c) (tl lower_table) = None"
    using lower_table_tail assms by (rule find_covers_below)
  have "find (covers c) ((65, 90, 1, 97) # tl lower_table)
          = (if 65 \<le> c \<and> c \<le> 90 then Some (65, 90, 1, 97) else None)"
    by (simp add: n covers_def)
  then have "find (covers c) lower_table
          = (if 65 \<le> c \<and> c \<le> 90 then Some (65, 90, 1, 97) else None)"
    by (simp only: arg_cong [OF lower_table_head, of "find (covers c)"])
  then show ?thesis using assms by (simp add: to_lower_def)
qed

lemma space_not_lowered:
  "list_all (\<lambda>(a, b). list_all (\<lambda>(lo, hi, step, t). hi < a \<or> b < lo) (tl lower_table)
                        \<and> (b < 65 \<or> 90 < a) \<and> (b < 0x130 \<or> 0x130 < a))
     space_ranges"
  by (simp add: space_ranges_def lower_table_def)

lemma to_lower_space:
  assumes "isspace c"
  shows "to_lower c = [c]"
proof -
  obtain a b where ab: "(a, b) \<in> set space_ranges" "a \<le> c" "c \<le> b"
    using assms by (auto simp: isspace_def in_ranges_def list_ex_iff)
  have p: "list_all (\<lambda>(lo, hi, step, t). hi < a \<or> b < lo) (tl lower_table)"
    and q: "b < 65 \<or> 90 < a" and r: "b < 0x130 \<or> 0x130 < a"
    using space_not_lowered ab(1) by (auto simp: list_all_iff)
  have n: "find (covers c) (tl lower_table) = None"
    using p ab(2,3) by (rule find_covers_outside)
  have "find (covers c) ((65, 90, 1, 97) # tl lower_table) = None"
    using q ab(2,3) by (auto simp: n covers_def)
  then have "find (covers c) lower_table = None"
    by (simp only: arg_cong [OF lower_table_head, of "find (covers c)"])
  moreover have "c \<noteq> 0x130" using r ab(2,3) by auto
  ultimately show ?thesis by (simp add: to_lower_def)
qed

lemma isspace_iff:
  "isspace c = (9 \<le> c \<and> c \<le> 13 \<or> 28 \<le> c \<and> c \<le> 32 \<or> c = 133 \<or> c = 160 \<or> c = 5760
                \<or> 8192 \<le> c \<and> c \<le> 8202 \<or> 8232 \<le> c \<and> c \<le> 8233 \<or> c = 8239 \<or> c = 8287
                \<or> c = 12288)"
  by (auto simp: isspace_def in_ranges_def space_ranges_def)

lemmas string_eval =
  str_def index_def strip_def isspace_iff isdigit_ascii to_lower_ascii lower_def

section \<open>Claims on the playlist parser\<close>

lemma extract_loop_length:
  "extract_loop lines acc = Inr songs \<Longrightarrow> length songs \<le> length acc + length lines"
proof (induction lines arbitrary: acc)
  case Nil
  then show ?case by simp
next
  case (Cons line lines)
  then show ?case
    by (fastforce simp: Let_def split: if_splits sum.splits)
qed

text \<open>
  C1. The line below has the shape \<open><n>. <title> - <artist>\<close> and exactly one \<open>" - "\<close>.
  The claim has the pair (\<open>Mr. Brightside\<close>, \<open>The Killers\<close>) returned; the function
  splits the first segment at every \<open>". "\<close> and takes index \<open>[1]\<close>, which is the text
  between the first and the second separator, and returns the title \<open>Mr\<close>.
\<close>

theorem extract_songs_cuts_title:
  "extract_songs (str ''1. Mr. Brightside - The Killers'') = Inr [(str ''Mr'', str ''The Killers'')]
   \<and> str ''Mr'' \<noteq> str ''Mr. Brightside''"
  by (simp add: extract_songs_def string_eval)

text \<open>
  C2. The first line begins with a digit and splits at \<open>" - "\<close> into two segments, and its
  first segment has no \<open>". "\<close>. The claim has the line skipped and the second line parsed;
  the function raises IndexError instead and returns no song at all.
\<close>

theorem extract_songs_raises:
  "extract_songs (str ''1) Song - Artist\<newline>2. Happy - Pharrell Williams'') = Inl IndexError"
  by (simp add: extract_songs_def string_eval)

text \<open>
  C4, as amended. The songs returned are at most as many as the lines of the text; nothing
  in the parser bounds them by 10.
\<close>

theorem extract_songs_length:
  "extract_songs playlist_text = Inr songs \<Longrightarrow>
   length songs \<le> length (str_split (str ''\<newline>'') playlist_text)"
  using extract_loop_length [of "str_split (str ''\<newline>'') playlist_text" "[]" songs]
  by (simp add: extract_songs_def)

text \<open>C4 as stated fails: a text of eleven numbered lines gives eleven songs.\<close>

theorem extract_songs_eleven:
  "map_sum id length (extract_songs eleven_lines) = Inr 11"
  by (simp add: eleven_lines_def extract_songs_def string_eval)

text \<open>The premise holds on a text of two lines, one of them an entry.\<close>

theorem extract_songs_length_witness:
  "extract_songs (str ''1. Happy - Pharrell Williams\<newline>Enjoy!'')
     = Inr [(str ''Happy'', str ''Pharrell Williams'')]
   \<and> length [(str ''Happy'', str ''Pharrell Williams'')]
       \<le> length (str_split (str ''\<newline>'') (str ''1. Happy - Pharrell Williams\<newline>Enjoy!''))"
proof -
  have e: "extract_songs (str ''1. Happy - Pharrell Williams\<newline>Enjoy!'')
             = Inr [(str ''Happy'', str ''Pharrell Williams'')]"
    by (simp add: extract_songs_def string_eval)
  show ?thesis using extract_songs_length [OF e] e by simp
qed

section \<open>Claims on the track resolver\<close>

lemma search_loop_eq:
  "search_loop env songs acc w =
     (acc @ List.map_filter top_match (lookups env (trace w) songs),
      w\<lparr>trace := trace w @ map search_call songs\<rparr>)"
proof (induction songs arbitrary: acc w)
  case Nil
  then show ?case by simp
next
  case (Cons s songs)
  obtain song artist where s: "s = (song, artist)" by (cases s) auto
  show ?case
    unfolding s
    by (simp add: Cons.IH called_def Let_def top_match_def dict_get_def dict_item_def
          search_call_def
        split: sum.splits option.splits list.splits)
qed





section \<open>Claims on the playlist publisher\<close>

text \<open>
  C7. \<open>create_spotify_playlist\<close> never raises: it always returns a value. That value is
  the playlist's link exactly when authentication and creation succeeded, the tracks were
  added (the call is made only for a list that is not empty), and the playlist carries the
  link; in every other case, so whenever one of the three calls fails, it is \<open>None\<close>.
\<close>

theorem create_spotify_playlist_outcome:
  "(\<exists>r. fst (create_spotify_playlist env name track_uris w) = Inr r)
   \<and> (fst (create_spotify_playlist env name track_uris w) = Inr (Some link) \<longleftrightarrow>
        (\<exists>auth pl urls.
           spotify_oauth env (trace w) = Inr auth
           \<and> user_playlist_create env (trace w @ [OAuth]) name = Inr pl
           \<and> (track_uris = [] \<or>
                (\<exists>pid added. playlist_id pl = Some pid
                   \<and> playlist_add_items env (trace w @ [OAuth, PlaylistCreate name]) pid track_uris = Inr added))
           \<and> external_urls pl = Some urls \<and> urls (str ''spotify'') = Some link))
   \<and> (fst (create_spotify_playlist env name track_uris w) = Inr None
        \<or> (\<exists>link. fst (create_spotify_playlist env name track_uris w) = Inr (Some link)))"
  by (auto simp: create_spotify_playlist_def create_spotify_playlist_try_def called_def Let_def
        dict_item_def split: sum.splits option.splits prod.splits)

text \<open>Both outcomes occur: a link when every call succeeds, \<open>None\<close> when authentication fails.\<close>

theorem create_spotify_playlist_outcome_witness:
  "fst (create_spotify_playlist (demo_env [] [] (Inr ())) (str ''relaxed jazz Playlist'')
          [(str ''spotify:track:1'')] world_init)
     = Inr (Some (str ''https://open.spotify.com/playlist/p1''))
   \<and> fst (create_spotify_playlist (demo_env [] [] (Inl ProviderFailure)) (str ''relaxed jazz Playlist'')
          [(str ''spotify:track:1'')] world_init)
     = Inr None"
proof -
  have a: "fst (create_spotify_playlist (demo_env [] [] (Inr ())) (str ''relaxed jazz Playlist'')
          [(str ''spotify:track:1'')] world_init)
     = Inr (Some (str ''https://open.spotify.com/playlist/p1''))"
    using create_spotify_playlist_outcome [of "demo_env [] [] (Inr ())" "(str ''relaxed jazz Playlist'')"
          "[(str ''spotify:track:1'')]" world_init "(str ''https://open.spotify.com/playlist/p1'')"]
    by (simp add: demo_env_def demo_playlist_def world_init_def str_def)
  have b: "fst (create_spotify_playlist (demo_env [] [] (Inl ProviderFailure)) (str ''relaxed jazz Playlist'')
          [(str ''spotify:track:1'')] world_init)
     = Inr None"
    by (simp add: create_spotify_playlist_def create_spotify_playlist_try_def demo_env_def
          called_def world_init_def Let_def)
  show ?thesis using a b by simp
qed

section \<open>Claims on the message handler\<close>

lemma strip_ends: "strip s = [] \<or> (\<not> isspace (hd (strip s)) \<and> \<not> isspace (last (strip s)))"
proof (cases "strip s = []")
  case True then show ?thesis by simp
next
  case False
  let ?u = "dropWhile isspace s"
  let ?t = "dropWhile isspace (rev ?u)"
  have t: "?t \<noteq> []" using False by (simp add: strip_def)
  have u: "?u \<noteq> []"
    using t by (metis dropWhile.simps(1) rev.simps(1))
  have l: "\<not> isspace (hd ?t)" using t by (rule hd_dropWhile)
  have "last (strip s) = hd ?t" using t by (simp add: strip_def last_rev)
  moreover have "hd (strip s) = hd ?u"
  proof -
    obtain ys where "?t = ys" by simp
    have "suffix ?t (rev ?u)" by (rule suffix_dropWhile)
    then obtain zs where z: "rev ?u = zs @ ?t" by (auto simp: suffix_def)
    then have "?u = rev ?t @ rev zs" by (metis rev_append rev_rev_ident)
    then have "hd ?u = hd (rev ?t)" using t by (metis hd_append2 rev_is_Nil_conv)
    then show ?thesis by (simp add: strip_def)
  qed
  moreover have "\<not> isspace (hd ?u)" using u by (rule hd_dropWhile)
  ultimately show ?thesis using l by simp
qed

lemma sublist_dropWhile:
  "u \<noteq> [] \<Longrightarrow> \<not> P (hd u) \<Longrightarrow> sublist u t \<Longrightarrow> sublist u (dropWhile P t)"
proof (induction t)
  case Nil
  then show ?case by simp
next
  case (Cons c cs)
  show ?case
  proof (cases "P c")
    case True
    have "\<not> prefix u (c # cs)"
      using Cons.prems(1,2) True by (cases u) auto
    then have "sublist u cs" using Cons.prems(3) by (simp add: sublist_Cons_right)
    then show ?thesis using Cons.IH Cons.prems(1,2) True by simp
  next
    case False
    then show ?thesis using Cons.prems(3) by simp
  qed
qed

lemma sublist_strip:
  assumes "u \<noteq> []" and "\<not> isspace (hd u)" and "\<not> isspace (last u)" and "sublist u t"
  shows "sublist u (strip t)"
proof -
  have a: "sublist u (dropWhile isspace t)"
    using assms(1,2,4) by (rule sublist_dropWhile)
  have "sublist (rev u) (rev (dropWhile isspace t))" using a by simp
  moreover have "rev u \<noteq> []" using assms(1) by simp
  moreover have "\<not> isspace (hd (rev u))" using assms(1,3) by (simp add: hd_rev)
  ultimately have "sublist (rev u) (dropWhile isspace (rev (dropWhile isspace t)))"
    by (simp add: sublist_dropWhile)
  then have "sublist (rev (rev u)) (rev (dropWhile isspace (rev (dropWhile isspace t))))"
    by (simp only: sublist_rev)
  then show ?thesis by (simp add: strip_def)
qed

lemma lower_from_sigma:
  "0x3A3 \<in> set s \<Longrightarrow> 0x3C2 \<in> set (lower_from passed s) \<or> 0x3C3 \<in> set (lower_from passed s)"
  by (induction s arbitrary: passed) auto

lemma lower_from_plain:
  "0x3A3 \<notin> set u \<Longrightarrow>
   lower_from passed (u @ r) = concat (map to_lower u) @ lower_from (rev u @ passed) r"
  by (induction u arbitrary: passed) auto

lemma lower_from_append:
  "\<exists>x. lower_from passed (q @ r) = x @ lower_from (rev q @ passed) r"
proof (induction q arbitrary: passed)
  case Nil
  then show ?case by simp
next
  case (Cons c q)
  obtain x where "lower_from (c # passed) (q @ r) = x @ lower_from (rev q @ c # passed) r"
    using Cons.IH by blast
  then show ?case by simp
qed

lemma sublist_lower:
  assumes "sublist u t" and "0x3A3 \<notin> set u"
  shows "sublist (concat (map to_lower u)) (lower t)"
proof -
  obtain ps ss where t: "t = ps @ u @ ss" using assms(1) by (auto simp: sublist_def)
  obtain x where "lower_from [] (ps @ u @ ss) = x @ lower_from (rev ps @ []) (u @ ss)"
    using lower_from_append by blast
  then have "lower t = x @ concat (map to_lower u) @ lower_from (rev u @ rev ps) ss"
    using assms(2) by (simp add: lower_def t lower_from_plain)
  then show ?thesis unfolding sublist_def by blast
qed

lemma lowers_to_marker:
  assumes "lower u = str ''blocked by content filtering''"
  shows "0x3A3 \<notin> set u"
    and "concat (map to_lower u) = str ''blocked by content filtering''"
    and "u \<noteq> []" and "\<not> isspace (hd u)" and "\<not> isspace (last u)"
proof -
  let ?needle = "str ''blocked by content filtering''"
  show s: "0x3A3 \<notin> set u"
  proof
    assume "0x3A3 \<in> set u"
    then have "0x3C2 \<in> set (lower u) \<or> 0x3C3 \<in> set (lower u)"
      unfolding lower_def by (rule lower_from_sigma)
    then show False by (simp add: assms str_def)
  qed
  show c: "concat (map to_lower u) = ?needle"
    using lower_from_plain [OF s, of "[]" "[]"] assms by (simp add: lower_def)
  show n: "u \<noteq> []" using c by (auto simp: str_def)
  show "\<not> isspace (hd u)"
  proof
    assume sp: "isspace (hd u)"
    obtain a v where u: "u = a # v" using n by (cases u) auto
    have "to_lower a = [a]" using sp u by (simp add: to_lower_space)
    then have "hd ?needle = a" using c u by (metis append_Cons concat.simps(2) list.sel(1) list.simps(9))
    then have "a = 98" by (simp add: str_def)
    then show False using sp u by (simp add: isspace_iff)
  qed
  show "\<not> isspace (last u)"
  proof
    assume sp: "isspace (last u)"
    obtain v a where u: "u = v @ [a]" using n by (metis append_butlast_last_id)
    have "to_lower a = [a]" using sp u by (simp add: to_lower_space)
    then have "?needle = concat (map to_lower v) @ [a]" using c u by simp
    then have "last ?needle = a" by (metis last_snoc)
    then have "a = 103" by (simp add: str_def)
    then show False using sp u by (simp add: isspace_iff)
  qed
qed

lemma is_filtered_strip:
  assumes "sublist u text" and "lower u = str ''blocked by content filtering''"
  shows "is_filtered (strip text)"
proof -
  note m = lowers_to_marker [OF assms(2)]
  have "sublist u (strip text)"
    using m(3,4,5) assms(1) by (rule sublist_strip)
  then have "sublist (concat (map to_lower u)) (lower (strip text))"
    using m(1) by (rule sublist_lower)
  then show ?thesis by (simp add: is_filtered_def m(2))
qed

text \<open>
  C5. When the text of the response holds \<open>blocked by content filtering\<close> in any letter
  case, the handler returns the fixed retry reply whatever else the text holds. The world it
  leaves is the one it found with the classification call added to the trace: the session is
  unchanged, and no playlist is generated, searched for or published.
\<close>

theorem filtered_response_retry:
  assumes "generate env (trace w) (Classify message (preferences (session w))) = Inr response"
    and "sublist u (dict_get response (str ''response'') [])"
    and "lower u = (str ''blocked by content filtering'')"
  shows "music_assistant_llm env message w
           = (Inr retry_reply, called (Generate (Classify message (preferences (session w)))) w)"
  using assms(1) is_filtered_strip [OF assms(2,3)]
  by (simp add: music_assistant_llm_def Let_def)

text \<open>The premises hold on a response that also carries both markers.\<close>

theorem filtered_response_retry_witness:
  "generate (demo_env (str ''Sorry, this was Blocked by Content Filtering. Mood: a Genre: b'') jazz_text (Inr ()))
      (trace world_init) (Classify (str ''I feel relaxed, love jazz'') (preferences (session world_init)))
     = Inr [(str ''response'') \<mapsto> (str ''Sorry, this was Blocked by Content Filtering. Mood: a Genre: b'')]
   \<and> sublist (str ''Blocked by Content Filtering'')
        (dict_get [(str ''response'') \<mapsto> (str ''Sorry, this was Blocked by Content Filtering. Mood: a Genre: b'')]
           (str ''response'') [])
   \<and> lower (str ''Blocked by Content Filtering'') = (str ''blocked by content filtering'')
   \<and> music_assistant_llm
        (demo_env (str ''Sorry, this was Blocked by Content Filtering. Mood: a Genre: b'') jazz_text (Inr ()))
        (str ''I feel relaxed, love jazz'') world_init
       = (Inr retry_reply,
          called (Generate (Classify (str ''I feel relaxed, love jazz'') (preferences (session world_init))))
            world_init)"
proof -
  let ?t = "(str ''Sorry, this was Blocked by Content Filtering. Mood: a Genre: b'')"
  let ?e = "demo_env ?t jazz_text (Inr ())"
  have g: "generate ?e (trace world_init)
             (Classify (str ''I feel relaxed, love jazz'') (preferences (session world_init)))
           = Inr [(str ''response'') \<mapsto> ?t]"
    by (simp add: demo_env_def)
  have s: "sublist (str ''Blocked by Content Filtering'') (dict_get [(str ''response'') \<mapsto> ?t] (str ''response'') [])"
    by (simp add: dict_get_def sublist_Cons_right str_def)
  have l: "lower (str ''Blocked by Content Filtering'') = (str ''blocked by content filtering'')"
    by (simp add: string_eval)
  show ?thesis
    by (rule conjI [OF g conjI [OF s conjI [OF l filtered_response_retry [OF g s l]]]])
qed

lemmas handler_defs =
  music_assistant_llm_def commit_and_publish_def generate_playlist_def extract_songs_def
  search_songs_def create_spotify_playlist_def create_spotify_playlist_try_def
  demo_env_def demo_search_def demo_playlist_def world_init_def session_init_def called_def
  is_filtered_def has_markers_def split_markers_def truthy_def falsy_def
  dict_get_def dict_item_def search_query_def string_eval sublist_Cons_right Let_def

text \<open>
  C3. The response below holds a mood marker and a genre marker under the case-insensitive
  test and is not filtered. The claim has the mood \<open>happy\<close> and the genre \<open>pop\<close>
  extracted; the handler splits at \<open>Mood:\<close> and \<open>Genre:\<close> exactly as written, finds
  neither, and returns the fixed reply of the IndexError handler with nothing stored.
\<close>

theorem lowercase_markers_rejected:
  "\<not> is_filtered (str ''mood: happy\<newline>genre: pop'') \<and> has_markers (str ''mood: happy\<newline>genre: pop'')
   \<and> music_assistant_llm (demo_env (str ''mood: happy\<newline>genre: pop'') jazz_text (Inr ()))
        (str ''I am happy, pop please'') world_init
       = (Inr undetermined_reply,
          called (Generate (Classify (str ''I am happy, pop please'') \<lparr>mood = None, genre = None\<rparr>)) world_init)"
  by (simp add: handler_defs)

lemma split_markers_error: "split_markers t = Inl e \<Longrightarrow> e = IndexError"
  by (auto simp: split_markers_def index_def split: sum.splits if_splits)

lemma strip_trimmed: "strip s \<noteq> [] \<Longrightarrow> trimmed (strip s)"
  using strip_ends [of s] by (simp add: trimmed_def)

lemma split_markers_stripped:
  assumes "split_markers t = Inr (m, g)"
  shows "m \<noteq> [] \<Longrightarrow> trimmed m" and "g \<noteq> [] \<Longrightarrow> trimmed g"
  using assms by (auto simp: split_markers_def strip_trimmed split: sum.splits)

lemma generate_playlist_session:
  "generate_playlist env m g w = (r, w') \<Longrightarrow> session w' = session w"
  by (auto simp: generate_playlist_def called_def Let_def split: sum.splits if_splits)

lemma search_songs_session:
  "search_songs env songs w = (uris, w') \<Longrightarrow> session w' = session w"
  by (auto simp: search_songs_def search_loop_eq)

lemma create_spotify_playlist_session:
  "create_spotify_playlist env name uris w = (r, w') \<Longrightarrow> session w' = session w"
  by (auto simp: create_spotify_playlist_def create_spotify_playlist_try_def called_def Let_def
        split: sum.splits option.splits prod.splits if_splits)

lemma commit_and_publish_session:
  "session (snd (commit_and_publish env m g w))
     = (session w)\<lparr>preferences := (preferences (session w))\<lparr>mood := Some m, genre := Some g\<rparr>\<rparr>"
  by (auto simp: commit_and_publish_def Let_def
        split: sum.splits prod.splits option.splits if_splits
        dest!: generate_playlist_session search_songs_session create_spotify_playlist_session)


lemma called_session: "session (called c w) = session w"
  by (simp add: called_def)

lemma handler_by_outcome:
  assumes "generate env (trace w) (Classify message (preferences (session w))) = Inr response"
  shows "music_assistant_llm env message w =
           (let w1 = called (Generate (Classify message (preferences (session w)))) w;
                response_text = strip (dict_get response (str ''response'') [])
            in case extraction response_text of
                 Filtered \<Rightarrow> (Inr retry_reply, w1)
               | ParseFailure \<Rightarrow> (Inr undetermined_reply, w1)
               | Incomplete \<Rightarrow> (Inr response_text, w1)
               | Complete m g \<Rightarrow> commit_and_publish env m g w1)"
proof -
  let ?t = "strip (dict_get response (str ''response'') [])"
  show ?thesis
  proof (cases "is_filtered ?t")
    case True
    then show ?thesis using assms
      by (simp add: extraction_def music_assistant_llm_def Let_def)
  next
    case nf: False
    show ?thesis
    proof (cases "has_markers ?t")
      case False
      then show ?thesis using assms nf
        by (simp add: extraction_def music_assistant_llm_def Let_def truthy_def falsy_def)
    next
      case hm: True
      show ?thesis
      proof (cases "split_markers ?t")
        case (Inl e)
        then have "e = IndexError" by (rule split_markers_error)
        then show ?thesis using assms nf hm Inl
          by (simp add: extraction_def music_assistant_llm_def Let_def)
      next
        case (Inr mg)
        obtain m g where mg: "mg = (m, g)" by (cases mg) auto
        show ?thesis
        proof (cases "m = [] \<or> g = []")
          case True
          then show ?thesis using assms nf hm Inr mg
            by (auto simp: extraction_def music_assistant_llm_def Let_def truthy_def falsy_def)
        next
          case False
          then show ?thesis using assms nf hm Inr mg
            by (simp add: extraction_def music_assistant_llm_def Let_def truthy_def falsy_def)
        qed
      qed
    qed
  qed
qed


lemma extraction_complete:
  assumes "extraction t = Complete m g"
  shows "m \<noteq> []" and "g \<noteq> []" and "split_markers t = Inr (m, g)"
  using assms by (auto simp: extraction_def split: if_splits sum.splits prod.splits)

text \<open>
  C9. When the classification call returns, the outcome of the extraction decides the
  reply and the session: on a filtered, unsplittable or incomplete response the handler
  returns its reply (the retry reply, the fixed failure reply, the response text itself) and
  the session is exactly as before; the session changes only when both fields were found
  and are not empty, and then the preferences hold these two values.
\<close>

theorem preferences_frame:
  assumes "generate env (trace w) (Classify message (preferences (session w))) = Inr response"
  shows "case extraction (strip (dict_get response (str ''response'') [])) of
           Filtered \<Rightarrow>
             fst (music_assistant_llm env message w) = Inr retry_reply
             \<and> session (snd (music_assistant_llm env message w)) = session w
         | ParseFailure \<Rightarrow>
             fst (music_assistant_llm env message w) = Inr undetermined_reply
             \<and> session (snd (music_assistant_llm env message w)) = session w
         | Incomplete \<Rightarrow>
             fst (music_assistant_llm env message w) = Inr (strip (dict_get response (str ''response'') []))
             \<and> session (snd (music_assistant_llm env message w)) = session w
         | Complete m g \<Rightarrow>
             m \<noteq> [] \<and> g \<noteq> []
             \<and> session (snd (music_assistant_llm env message w))
                 = (session w)\<lparr>preferences := \<lparr>mood = Some m, genre = Some g\<rparr>\<rparr>"
proof (cases "extraction (strip (dict_get response (str ''response'') []))")
  case (Complete m g)
  then show ?thesis
    using handler_by_outcome [OF assms] extraction_complete(1,2) [OF Complete]
    by (simp add: Let_def commit_and_publish_session called_session)
qed (simp_all add: handler_by_outcome [OF assms] Let_def called_session)

text \<open>The premise holds on a response that names a mood only; it is passed through.\<close>

theorem preferences_frame_witness:
  "generate (demo_env (str ''Mood: happy'') jazz_text (Inr ())) (trace world_init)
      (Classify (str ''I feel happy'') (preferences (session world_init)))
     = Inr [(str ''response'') \<mapsto> (str ''Mood: happy'')]
   \<and> extraction (strip (dict_get [(str ''response'') \<mapsto> (str ''Mood: happy'')] (str ''response'') [])) = Incomplete
   \<and> fst (music_assistant_llm (demo_env (str ''Mood: happy'') jazz_text (Inr ())) (str ''I feel happy'') world_init)
     = Inr (str ''Mood: happy'')
   \<and> session (snd (music_assistant_llm (demo_env (str ''Mood: happy'') jazz_text (Inr ())) (str ''I feel happy'')
                      world_init))
     = session world_init"
proof -
  let ?e = "demo_env (str ''Mood: happy'') jazz_text (Inr ())"
  have g: "generate ?e (trace world_init) (Classify (str ''I feel happy'') (preferences (session world_init)))
             = Inr [(str ''response'') \<mapsto> (str ''Mood: happy'')]"
    by (simp add: demo_env_def)
  have s: "strip (dict_get [(str ''response'') \<mapsto> (str ''Mood: happy'')] (str ''response'') []) = (str ''Mood: happy'')"
    by (simp add: dict_get_def string_eval)
  have x: "extraction (str ''Mood: happy'') = Incomplete"
    by (simp add: extraction_def is_filtered_def has_markers_def string_eval sublist_Cons_right)
  show ?thesis using preferences_frame [OF g] g by (simp add: s x)
qed

text \<open>
  A mood that is only a no-break space is stripped to nothing, so the response is incomplete;
  and a marker written with the Kelvin sign (U+212A) for its \<open>k\<close> is filtered, as its
  lowered form is the marker.
\<close>

lemma extraction_no_break_space:
  "extraction (strip (str ''Mood: '' @ [0xA0] @ str ''\<newline>Genre: pop'')) = Incomplete"
  by (simp add: extraction_def is_filtered_def has_markers_def split_markers_def string_eval
        sublist_Cons_right to_lower_space)

lemma to_lower_kelvin: "to_lower 0x212A = [0x6B]"
  by (simp add: to_lower_def lower_table_def covers_def)

lemma extraction_kelvin_sign:
  "extraction (str ''bloc'' @ [0x212A] @ str ''ed by content filtering'') = Filtered"
  by (simp add: extraction_def is_filtered_def string_eval sublist_Cons_right to_lower_kelvin)

lemma step_preferences:
  "preferences (session (snd (music_assistant_llm env message w))) = preferences (session w)
   \<or> (\<exists>m g. trimmed m \<and> trimmed g
         \<and> preferences (session (snd (music_assistant_llm env message w)))
             = \<lparr>mood = Some m, genre = Some g\<rparr>)"
proof (cases "generate env (trace w) (Classify message (preferences (session w)))")
  case (Inl e)
  then show ?thesis by (simp add: music_assistant_llm_def Let_def called_session)
next
  case (Inr response)
  let ?t = "strip (dict_get response (str ''response'') [])"
  show ?thesis
  proof (cases "extraction ?t")
    case (Complete m g)
    have "trimmed m \<and> trimmed g"
      using split_markers_stripped [OF extraction_complete(3) [OF Complete]]
        extraction_complete(1,2) [OF Complete] by simp
    moreover have "preferences (session (snd (music_assistant_llm env message w)))
                     = \<lparr>mood = Some m, genre = Some g\<rparr>"
      using handler_by_outcome [OF Inr] Complete
      by (simp add: Let_def commit_and_publish_session called_session)
    ultimately show ?thesis by blast
  qed (simp_all add: handler_by_outcome [OF Inr] Let_def called_session)
qed

lemma run_append: "run (xs @ ys) w = run ys (run xs w)"
  by (induction xs arbitrary: w) auto

lemma step_prefs_ok:
  assumes "prefs_ok (preferences (session w))"
  shows "prefs_ok (preferences (session (snd (music_assistant_llm env message w))))"
  using step_preferences [of env message w]
proof (elim disjE exE conjE)
  assume e: "preferences (session (snd (music_assistant_llm env message w))) = preferences (session w)"
  show ?thesis using assms by (simp only: e)
next
  fix m g
  assume t: "trimmed m" "trimmed g"
    and e: "preferences (session (snd (music_assistant_llm env message w)))
              = \<lparr>mood = Some m, genre = Some g\<rparr>"
  show ?thesis unfolding e using t by (simp add: prefs_ok_def)
qed

lemma step_keeps_mood:
  assumes "mood (preferences (session w)) \<noteq> None"
  shows "mood (preferences (session (snd (music_assistant_llm env message w)))) \<noteq> None"
  using step_preferences [of env message w]
proof (elim disjE exE conjE)
  assume e: "preferences (session (snd (music_assistant_llm env message w))) = preferences (session w)"
  show ?thesis using assms by (simp add: e)
next
  fix m g
  assume e: "preferences (session (snd (music_assistant_llm env message w)))
              = \<lparr>mood = Some m, genre = Some g\<rparr>"
  show ?thesis unfolding e by simp
qed

lemma step_keeps_genre:
  assumes "genre (preferences (session w)) \<noteq> None"
  shows "genre (preferences (session (snd (music_assistant_llm env message w)))) \<noteq> None"
  using step_preferences [of env message w]
proof (elim disjE exE conjE)
  assume e: "preferences (session (snd (music_assistant_llm env message w))) = preferences (session w)"
  show ?thesis using assms by (simp add: e)
next
  fix m g
  assume e: "preferences (session (snd (music_assistant_llm env message w)))
              = \<lparr>mood = Some m, genre = Some g\<rparr>"
  show ?thesis unfolding e by simp
qed

lemma run_prefs_ok:
  "prefs_ok (preferences (session w)) \<Longrightarrow> prefs_ok (preferences (session (run steps w)))"
  by (induction steps w rule: run.induct) (simp_all add: step_prefs_ok)

lemma run_keeps_mood:
  "mood (preferences (session w)) \<noteq> None \<Longrightarrow> mood (preferences (session (run steps w))) \<noteq> None"
  by (induction steps w rule: run.induct) (simp_all add: step_keeps_mood)

lemma run_keeps_genre:
  "genre (preferences (session w)) \<noteq> None \<Longrightarrow> genre (preferences (session (run steps w))) \<noteq> None"
  by (induction steps w rule: run.induct) (simp_all add: step_keeps_genre)

text \<open>
  C10. After any sequence of messages from the initial session, against any providers: the
  stored mood and genre are both \<open>None\<close>, or both strings that are not empty and carry
  no white space at their ends; one more message leaves the preferences as they are or sets
  both fields together to such strings; and a field that holds a string holds one after any
  further messages.
\<close>

theorem session_invariant:
  "prefs_ok (prefs_after steps)
   \<and> (prefs_after (steps @ [(env, message)]) = prefs_after steps
        \<or> (\<exists>m g. trimmed m \<and> trimmed g
              \<and> prefs_after (steps @ [(env, message)]) = \<lparr>mood = Some m, genre = Some g\<rparr>))
   \<and> (mood (prefs_after steps) \<noteq> None \<longrightarrow> mood (prefs_after (steps @ later)) \<noteq> None)
   \<and> (genre (prefs_after steps) \<noteq> None \<longrightarrow> genre (prefs_after (steps @ later)) \<noteq> None)"
proof -
  have "prefs_ok (preferences (session world_init))"
    by (simp add: prefs_ok_def world_init_def session_init_def)
  then have a: "prefs_ok (prefs_after steps)"
    unfolding prefs_after_def by (rule run_prefs_ok)
  have b: "prefs_after (steps @ [(env, message)]) = prefs_after steps
        \<or> (\<exists>m g. trimmed m \<and> trimmed g
              \<and> prefs_after (steps @ [(env, message)]) = \<lparr>mood = Some m, genre = Some g\<rparr>)"
    using step_preferences [of env message "run steps world_init"]
    by (simp add: prefs_after_def run_append)
  have c: "mood (prefs_after steps) \<noteq> None \<longrightarrow> mood (prefs_after (steps @ later)) \<noteq> None"
    by (simp only: prefs_after_def run_append) (rule impI, rule run_keeps_mood)
  have d: "genre (prefs_after steps) \<noteq> None \<longrightarrow> genre (prefs_after (steps @ later)) \<noteq> None"
    by (simp only: prefs_after_def run_append) (rule impI, rule run_keeps_genre)
  show ?thesis using a b c d by blast
qed

text \<open>The premises hold after a message whose response names both fields.\<close>

theorem session_invariant_witness:
  "mood (prefs_after [(demo_env (str ''Mood: relaxed\<newline>Genre: jazz'') [] (Inr ()), (str ''I feel relaxed, love jazz''))])
     \<noteq> None
   \<and> genre (prefs_after [(demo_env (str ''Mood: relaxed\<newline>Genre: jazz'') [] (Inr ()), (str ''I feel relaxed, love jazz''))])
     \<noteq> None
   \<and> mood (prefs_after ([(demo_env (str ''Mood: relaxed\<newline>Genre: jazz'') [] (Inr ()), (str ''I feel relaxed, love jazz''))]
                         @ [(demo_env (str ''Tell me more'') [] (Inr ()), (str ''hello''))]))
     \<noteq> None
   \<and> genre (prefs_after ([(demo_env (str ''Mood: relaxed\<newline>Genre: jazz'') [] (Inr ()), (str ''I feel relaxed, love jazz''))]
                          @ [(demo_env (str ''Tell me more'') [] (Inr ()), (str ''hello''))]))
     \<noteq> None"
proof -
  let ?s = "[(demo_env (str ''Mood: relaxed\<newline>Genre: jazz'') [] (Inr ()), (str ''I feel relaxed, love jazz''))]"
  let ?l = "[(demo_env (str ''Tell me more'') [] (Inr ()), (str ''hello''))]"
  have p: "prefs_after ?s = \<lparr>mood = Some (str ''relaxed''), genre = Some (str ''jazz'')\<rparr>"
    by (simp add: prefs_after_def handler_defs)
  have m: "mood (prefs_after ?s) \<noteq> None" and g: "genre (prefs_after ?s) \<noteq> None"
    by (simp_all add: p)
  show ?thesis
    using session_invariant [of ?s "demo_env (str ''Tell me more'') [] (Inr ())" "(str ''hello'')" ?l] m g
    by blast
qed

text \<open>
  When the generated text is not empty and the parser returns, the reply is the playlist
  text followed by exactly one of the two endings.
\<close>

lemma suffixes_differ: "text @ listen_suffix url \<noteq> text @ degraded_suffix"
  by (simp add: listen_suffix_def degraded_suffix_def musical_notes_def warning_sign_def str_def)

lemma create_spotify_playlist_returns:
  "\<exists>url. fst (create_spotify_playlist env name track_uris w) = Inr url"
  by (auto simp: create_spotify_playlist_def split: sum.splits prod.splits)

lemma reply_after_parsing:
  assumes "generate env (trace w) (Author m g) = Inr response"
    and "strip (dict_get response (str ''response'') []) = text" and "text \<noteq> []"
    and "extract_songs text = Inr songs"
  shows "(\<exists>url. fst (commit_and_publish env m g w) = Inr (text @ listen_suffix url))
         \<or> fst (commit_and_publish env m g w) = Inr (text @ degraded_suffix)"
proof -
  let ?w1 = "w\<lparr>session := (session w)\<lparr>preferences :=
                   (preferences (session w))\<lparr>mood := Some m, genre := Some g\<rparr>\<rparr>\<rparr>"
  let ?w2 = "called (Generate (Author m g)) ?w1"
  have gp: "generate_playlist env m g ?w1 = (Inr (Some text, Inr songs), ?w2)"
    using assms by (simp add: generate_playlist_def Let_def)
  obtain uris w3 where ss: "search_songs env songs ?w2 = (uris, w3)"
    by (cases "search_songs env songs ?w2") auto
  obtain r w4 where cp: "create_spotify_playlist env (m @ (str '' '') @ g @ (str '' Playlist'')) uris w3 = (r, w4)"
    by (cases "create_spotify_playlist env (m @ (str '' '') @ g @ (str '' Playlist'')) uris w3") auto
  obtain url where r: "r = Inr url"
    using create_spotify_playlist_returns [of env "m @ (str '' '') @ g @ (str '' Playlist'')" uris w3] cp
    by auto
  show ?thesis
    using gp ss cp r assms(3)
    by (cases "truthy url") (auto simp: commit_and_publish_def Let_def truthy_def falsy_def)
qed

text \<open>
  C8. The preferences are committed and the generated playlist text is not empty, but its
  only line makes the parser raise IndexError (the defect of C2): nothing catches it, and
  the request ends without any reply, where the claim has the playlist text followed by
  the link or the notice.
\<close>

theorem no_reply_when_parser_raises:
  "fst (music_assistant_llm (demo_env (str ''Mood: relaxed\<newline>Genre: jazz'') (str ''1) So What - Miles Davis'') (Inr ()))
          (str ''I feel relaxed, love jazz'') world_init)
     = Inl IndexError
   \<and> preferences (session (snd (music_assistant_llm
          (demo_env (str ''Mood: relaxed\<newline>Genre: jazz'') (str ''1) So What - Miles Davis'') (Inr ()))
          (str ''I feel relaxed, love jazz'') world_init)))
     = \<lparr>mood = Some (str ''relaxed''), genre = Some (str ''jazz'')\<rparr>"
  by (simp add: handler_defs)

end
